theory Spec2Isabelle
  imports Complex_Main "HOL-Library.Word" "HOL-Library.Signed_Division"
begin

unbundle bit_operations_syntax

section \<open>Data model of the medical records service (main.go)\<close>

text \<open>
  Go's \<open>int\<close> and \<open>int64\<close> are 64-bit two's complement on the platforms the service is
  built for; \<open>float64\<close> values are never computed with by the service and are carried as
  their 64-bit IEEE pattern.
\<close>

type_synonym go_int = "64 word"
type_synonym float64 = "64 word"

text \<open>
  A \<open>time.Time\<close> is an instant (nanoseconds relative to the Unix epoch) together with the
  offset of its location in seconds east of UTC.
\<close>

record Time =
  unix_nanos :: int
  zone_offset :: int

text \<open>The zero value \<open>time.Time{}\<close>: January 1, year 1, 00:00:00 UTC.\<close>

definition zero_Time :: Time where
  "zero_Time = \<lparr>unix_nanos = - 62135596800 * 1000000000, zone_offset = 0\<rparr>"

text \<open>\<open>primitive.ObjectID\<close> is \<open>[12]byte\<close>.\<close>

type_synonym ObjectID = "8 word list"

definition NilObjectID :: ObjectID where
  "NilObjectID = replicate 12 0"

record Diagnosis =
  Code :: string
  Description :: string
  Severity :: string
  Status :: string
  DateDiagnosed :: Time

record Prescription =
  MedicationName :: string
  Dosage :: string
  Frequency :: string
  Duration :: string
  Instructions :: string
  PrescribedDate :: Time
  StartDate :: Time
  EndDate :: Time

record LabResult =
  TestName :: string
  TestCode :: string
  Result :: string
  Unit :: string
  ReferenceRange :: string
  Status :: string
  TestDate :: Time
  LabName :: string

record VitalSigns =
  BloodPressureSystolic :: go_int
  BloodPressureDiastolic :: go_int
  HeartRate :: go_int
  Temperature :: float64
  RespiratoryRate :: go_int
  OxygenSaturation :: go_int
  Weight :: float64
  Height :: float64
  BMI :: float64
  MeasuredAt :: Time

record Attachment =
  FileName :: string
  FileType :: string
  FileSize :: go_int
  StoragePath :: string
  UploadedAt :: Time
  Description :: string

text \<open>
  A Go slice field is \<open>None\<close> when the slice is nil (the JSON key was absent or null) and
  \<open>Some xs\<close> otherwise; the pointer field \<open>VitalSigns\<close> is \<open>None\<close> when nil.
\<close>

record MedicalRecord =
  ID :: ObjectID
  PatientID :: string
  DoctorID :: string
  AppointmentID :: string
  RecordType :: string
  Title :: string
  Description :: string
  Diagnosis :: "Diagnosis list option"
  Prescriptions :: "Prescription list option"
  LabResults :: "LabResult list option"
  VitalSigns :: "VitalSigns option"
  Attachments :: "Attachment list option"
  IsConfidential :: bool
  CreatedAt :: Time
  UpdatedAt :: Time
  CreatedBy :: string
  LastModifiedBy :: string

section \<open>Identifiers: \<open>primitive.ObjectIDFromHex\<close> and \<open>ObjectID.Hex\<close>\<close>

text \<open>\<open>encoding/hex\<close>: a hex digit in either case decodes to its value.\<close>

definition fromHexChar :: "char \<Rightarrow> 8 word option" where
  "fromHexChar c =
     (let n = of_char c :: nat in
      if 48 \<le> n \<and> n \<le> 57 then Some (of_nat (n - 48))
      else if 97 \<le> n \<and> n \<le> 102 then Some (of_nat (n - 97 + 10))
      else if 65 \<le> n \<and> n \<le> 70 then Some (of_nat (n - 65 + 10))
      else None)"

text \<open>\<open>hex.Decode\<close> on a string of even length: two digits per byte, high nibble first.\<close>

fun hex_Decode :: "string \<Rightarrow> 8 word list option" where
  "hex_Decode [] = Some []"
| "hex_Decode [c] = None"
| "hex_Decode (a # b # cs) =
     (case fromHexChar a of
        None \<Rightarrow> None
      | Some h \<Rightarrow>
          (case fromHexChar b of
             None \<Rightarrow> None
           | Some l \<Rightarrow>
               (case hex_Decode cs of
                  None \<Rightarrow> None
                | Some bs \<Rightarrow> Some ((push_bit 4 h OR l) # bs))))"

text \<open>
  \<open>ObjectIDFromHex\<close>: the string must have exactly 24 characters and be hexadecimal;
  \<open>None\<close> stands for the returned error.
\<close>

definition ObjectIDFromHex :: "string \<Rightarrow> ObjectID option" where
  "ObjectIDFromHex s = (if length s \<noteq> 24 then None else hex_Decode s)"

definition hextable :: string where
  "hextable = ''0123456789abcdef''"

fun hex_Encode :: "8 word list \<Rightarrow> string" where
  "hex_Encode [] = []"
| "hex_Encode (b # bs) =
     hextable ! unat (drop_bit 4 b) # hextable ! unat (b AND 15) # hex_Encode bs"

definition Hex :: "ObjectID \<Rightarrow> string" where
  "Hex oid = hex_Encode oid"

section \<open>BSON encoding of a record (what the collection holds)\<close>

text \<open>
  A \<open>time.Time\<close> is written as a BSON datetime, a count of milliseconds:
  \<open>NewDateTimeFromTime t = t.Unix()*1e3 + int64(t.Nanosecond())/1e6\<close>, where \<open>Unix\<close> is the
  floor of the seconds and \<open>Nanosecond\<close> lies in \<open>0..999999999\<close>. It is read back as
  \<open>time.Unix(dt/1000, dt%1000*1000000).UTC()\<close>, the instant \<open>dt\<close> milliseconds in UTC.
\<close>

definition NewDateTimeFromTime :: "Time \<Rightarrow> int" where
  "NewDateTimeFromTime t =
     (unix_nanos t div 1000000000) * 1000 + (unix_nanos t mod 1000000000) div 1000000"

definition DateTime_Time :: "int \<Rightarrow> Time" where
  "DateTime_Time dt = \<lparr>unix_nanos = dt * 1000000, zone_offset = 0\<rparr>"

definition bson_Time :: "Time \<Rightarrow> Time" where
  "bson_Time t = DateTime_Time (NewDateTimeFromTime t)"

definition bson_Diagnosis :: "Diagnosis \<Rightarrow> Diagnosis" where
  "bson_Diagnosis d = d\<lparr>DateDiagnosed := bson_Time (DateDiagnosed d)\<rparr>"

definition bson_Prescription :: "Prescription \<Rightarrow> Prescription" where
  "bson_Prescription p =
     p\<lparr>PrescribedDate := bson_Time (PrescribedDate p),
       StartDate := bson_Time (StartDate p),
       EndDate := bson_Time (EndDate p)\<rparr>"

definition bson_LabResult :: "LabResult \<Rightarrow> LabResult" where
  "bson_LabResult l = l\<lparr>TestDate := bson_Time (TestDate l)\<rparr>"

definition bson_VitalSigns :: "VitalSigns \<Rightarrow> VitalSigns" where
  "bson_VitalSigns v = v\<lparr>MeasuredAt := bson_Time (MeasuredAt v)\<rparr>"

definition bson_Attachment :: "Attachment \<Rightarrow> Attachment" where
  "bson_Attachment a = a\<lparr>UploadedAt := bson_Time (UploadedAt a)\<rparr>"

text \<open>
  The document a struct value is stored as, read back into the struct: a nil slice or
  pointer is stored as null and read back as nil; every other field is stored as it is,
  but for the time values. No field but \<open>_id\<close> carries \<open>omitempty\<close>.
\<close>

definition bson_MedicalRecord :: "MedicalRecord \<Rightarrow> MedicalRecord" where
  "bson_MedicalRecord r =
     r\<lparr>Diagnosis := map_option (map bson_Diagnosis) (Diagnosis r),
       Prescriptions := map_option (map bson_Prescription) (Prescriptions r),
       LabResults := map_option (map bson_LabResult) (LabResults r),
       VitalSigns := map_option bson_VitalSigns (VitalSigns r),
       Attachments := map_option (map bson_Attachment) (Attachments r),
       CreatedAt := bson_Time (CreatedAt r),
       UpdatedAt := bson_Time (UpdatedAt r)\<rparr>"

section \<open>Struct validation: \<open>validate.Struct\<close> with the \<open>validate\<close> tags\<close>

text \<open>A field error names the struct field and the tag that failed.\<close>

type_synonym FieldError = "string \<times> string"

definition hasValue :: "string \<Rightarrow> bool" where
  "hasValue v = (v \<noteq> [])"

definition isOneOf :: "string list \<Rightarrow> string \<Rightarrow> bool" where
  "isOneOf vals v = (v \<in> set vals)"

text \<open>The tags of one field run in order and stop at the first that fails.\<close>

fun validate_field :: "string \<Rightarrow> (string \<times> (string \<Rightarrow> bool)) list \<Rightarrow> string \<Rightarrow> FieldError list" where
  "validate_field name [] v = []"
| "validate_field name ((tag, chk) # tags) v =
     (if chk v then validate_field name tags v else [(name, tag)])"

definition record_type_values :: "string list" where
  "record_type_values = [''consultation'', ''diagnosis'', ''prescription'', ''lab_result'', ''imaging'']"

definition severity_values :: "string list" where
  "severity_values = [''mild'', ''moderate'', ''severe'', ''critical'']"

definition diagnosis_status_values :: "string list" where
  "diagnosis_status_values = [''active'', ''resolved'', ''chronic'']"

definition lab_status_values :: "string list" where
  "lab_status_values = [''normal'', ''abnormal'', ''critical'']"

text \<open>
  The tags of the nested structs, as the source declares them. The validator enters the
  elements of a slice only under a \<open>dive\<close> tag, and the slice fields of \<open>MedicalRecord\<close>
  carry no \<open>validate\<close> tag at all, so \<open>validate_Struct\<close> below never runs these.
\<close>

definition validate_Diagnosis :: "Diagnosis \<Rightarrow> FieldError list" where
  "validate_Diagnosis d =
     validate_field ''Code'' [(''required'', hasValue)] (Code d) @
     validate_field ''Description'' [(''required'', hasValue)] (Diagnosis.Description d) @
     validate_field ''Severity'' [(''oneof'', isOneOf severity_values)] (Severity d) @
     validate_field ''Status'' [(''oneof'', isOneOf diagnosis_status_values)] (Diagnosis.Status d)"

definition validate_Prescription :: "Prescription \<Rightarrow> FieldError list" where
  "validate_Prescription p =
     validate_field ''MedicationName'' [(''required'', hasValue)] (MedicationName p) @
     validate_field ''Dosage'' [(''required'', hasValue)] (Dosage p) @
     validate_field ''Frequency'' [(''required'', hasValue)] (Frequency p)"

definition validate_LabResult :: "LabResult \<Rightarrow> FieldError list" where
  "validate_LabResult l =
     validate_field ''TestName'' [(''required'', hasValue)] (TestName l) @
     validate_field ''Result'' [(''required'', hasValue)] (Result l) @
     validate_field ''Status'' [(''oneof'', isOneOf lab_status_values)] (LabResult.Status l)"

definition validate_Attachment :: "Attachment \<Rightarrow> FieldError list" where
  "validate_Attachment a =
     validate_field ''FileName'' [(''required'', hasValue)] (FileName a) @
     validate_field ''FileType'' [(''required'', hasValue)] (FileType a)"

text \<open>
  \<open>validate.Struct(&record)\<close>: the tagged fields of \<open>MedicalRecord\<close> in declaration
  order, all errors collected. The untagged fields (identifier, slices, the pointer to
  the tag-free \<open>VitalSigns\<close>, times, flags) add nothing.
\<close>

definition validate_Struct :: "MedicalRecord \<Rightarrow> FieldError list" where
  "validate_Struct r =
     validate_field ''PatientID'' [(''required'', hasValue)] (PatientID r) @
     validate_field ''DoctorID'' [(''required'', hasValue)] (DoctorID r) @
     validate_field ''RecordType''
       [(''required'', hasValue), (''oneof'', isOneOf record_type_values)] (RecordType r) @
     validate_field ''Title'' [(''required'', hasValue)] (Title r)"

section \<open>The collection \<open>medical_records\<close> and the driver calls\<close>

text \<open>
  The collection is the list of its documents in insertion order, each as the struct it
  decodes to. The store keeps \<open>_id\<close> unique; the model keeps it so in \<open>InsertOne\<close>.
\<close>

type_synonym collection = "MedicalRecord list"

definition store_wf :: "collection \<Rightarrow> bool" where
  "store_wf db = distinct (map ID db)"

text \<open>
  Every driver call can also fail for reasons outside the data (server unreachable, the
  context's timeout, a decoding failure). \<open>fl c\<close> says that call \<open>c\<close> of the request at hand
  fails so.
\<close>

datatype driver_call =
  CallCountDocuments | CallFind | CallCursorAll | CallFindOne
  | CallInsertOne | CallUpdateOne | CallDeleteOne | CallAggregate

type_synonym faults = "driver_call \<Rightarrow> bool"

datatype driver_error = ErrNoDocuments | TransportError | DuplicateKey | ImmutableField | BadValue

text \<open>The filter document \<open>bson.M\<close> of the list handler: each key is present or not.\<close>

record query_filter =
  filter_patient_id :: "string option"
  filter_record_type :: "string option"

definition matches :: "query_filter \<Rightarrow> MedicalRecord \<Rightarrow> bool" where
  "matches f d =
     ((case filter_patient_id f of None \<Rightarrow> True | Some p \<Rightarrow> PatientID d = p) \<and>
      (case filter_record_type f of None \<Rightarrow> True | Some t \<Rightarrow> RecordType d = t))"

definition CountDocuments :: "faults \<Rightarrow> collection \<Rightarrow> query_filter \<Rightarrow> driver_error + go_int" where
  "CountDocuments fl db f =
     (if fl CallCountDocuments then Inl TransportError
      else Inr (of_nat (length (filter (matches f) db))))"

text \<open>
  \<open>Find\<close> sorted by \<open>created_at\<close> descending, with skip and limit. The server rejects a
  negative skip. The driver sends a negative limit as its negation (one batch), and a
  limit of zero means no limit. Records with equal \<open>created_at\<close> are listed in insertion
  order here; the store leaves their order open.
\<close>

definition Find :: "faults \<Rightarrow> collection \<Rightarrow> query_filter \<Rightarrow> go_int \<Rightarrow> go_int \<Rightarrow> driver_error + MedicalRecord list" where
  "Find fl db f skip limitNum =
     (if fl CallFind then Inl TransportError
      else if sint skip < 0 then Inl BadValue
      else
        (let n = (if sint limitNum < 0 then - limitNum else limitNum);
             sorted = sort_key (\<lambda>d. - unix_nanos (CreatedAt d)) (filter (matches f) db);
             rest = drop (nat (sint skip)) sorted
         in if sint n < 0 then Inl BadValue
            else if n = 0 then Inr rest
            else Inr (take (nat (sint n)) rest)))"

definition cursor_All :: "faults \<Rightarrow> 'a list \<Rightarrow> driver_error + 'a list" where
  "cursor_All fl xs = (if fl CallCursorAll then Inl TransportError else Inr xs)"

definition FindOne :: "faults \<Rightarrow> collection \<Rightarrow> ObjectID \<Rightarrow> driver_error + MedicalRecord" where
  "FindOne fl db oid =
     (if fl CallFindOne then Inl TransportError
      else (case find (\<lambda>d. ID d = oid) db of
              None \<Rightarrow> Inl ErrNoDocuments
            | Some d \<Rightarrow> Inr d))"

text \<open>
  \<open>InsertOne\<close>: the document is the encoded struct; a zero \<open>_id\<close> is left out by
  \<open>omitempty\<close> and the driver then supplies one (\<open>drv_id\<close>). A duplicate \<open>_id\<close> is a
  write error.
\<close>

definition InsertOne :: "faults \<Rightarrow> ObjectID \<Rightarrow> collection \<Rightarrow> MedicalRecord \<Rightarrow> driver_error + collection" where
  "InsertOne fl drv_id db r =
     (if fl CallInsertOne then Inl TransportError
      else
        (let d = bson_MedicalRecord r;
             d' = (if ID d = NilObjectID then d\<lparr>ID := drv_id\<rparr> else d)
         in if ID d' \<in> set (map ID db) then Inl DuplicateKey else Inr (db @ [d'])))"

fun update_first :: "('a \<Rightarrow> bool) \<Rightarrow> ('a \<Rightarrow> 'a) \<Rightarrow> 'a list \<Rightarrow> 'a list" where
  "update_first P f [] = []"
| "update_first P f (d # ds) = (if P d then f d # ds else d # update_first P f ds)"

fun delete_first :: "('a \<Rightarrow> bool) \<Rightarrow> 'a list \<Rightarrow> 'a list" where
  "delete_first P [] = []"
| "delete_first P (d # ds) = (if P d then ds else d # delete_first P ds)"

text \<open>
  \<open>{"$set": updateData}\<close>: the operand is the whole encoded struct, so every field of the
  matched document but \<open>_id\<close> is overwritten, also by the zero values of fields the request
  left out.
\<close>

definition apply_set :: "MedicalRecord \<Rightarrow> MedicalRecord \<Rightarrow> MedicalRecord" where
  "apply_set u d = (bson_MedicalRecord u)\<lparr>ID := ID d\<rparr>"

text \<open>
  \<open>UpdateOne\<close> returns the new collection and \<open>MatchedCount\<close>. A non-zero \<open>_id\<close> in the
  operand that differs from the matched document's is refused by the server.
\<close>

definition UpdateOne :: "faults \<Rightarrow> collection \<Rightarrow> ObjectID \<Rightarrow> MedicalRecord \<Rightarrow> driver_error + collection \<times> nat" where
  "UpdateOne fl db oid u =
     (if fl CallUpdateOne then Inl TransportError
      else (case find (\<lambda>d. ID d = oid) db of
              None \<Rightarrow> Inr (db, 0)
            | Some d \<Rightarrow>
                if ID u \<noteq> NilObjectID \<and> ID u \<noteq> ID d then Inl ImmutableField
                else Inr (update_first (\<lambda>d. ID d = oid) (apply_set u) db, 1)))"

text \<open>\<open>DeleteOne\<close> returns the new collection and \<open>DeletedCount\<close>.\<close>

definition DeleteOne :: "faults \<Rightarrow> collection \<Rightarrow> ObjectID \<Rightarrow> driver_error + collection \<times> nat" where
  "DeleteOne fl db oid =
     (if fl CallDeleteOne then Inl TransportError
      else (case find (\<lambda>d. ID d = oid) db of
              None \<Rightarrow> Inr (db, 0)
            | Some d \<Rightarrow> Inr (delete_first (\<lambda>d. ID d = oid) db, 1)))"

subsection \<open>The aggregation pipeline of the patient summary\<close>

record summary =
  summary_id :: string
  total_records :: int
  record_types :: "string list"
  latest_record :: Time
  total_diagnoses :: int
  total_prescriptions :: int
  total_lab_results :: int

text \<open>\<open>{"$size": {"$ifNull": [field, []]}}\<close>\<close>

definition size_ifNull :: "'a list option \<Rightarrow> int" where
  "size_ifNull v = (case v of None \<Rightarrow> 0 | Some xs \<Rightarrow> int (length xs))"

definition max_Time :: "Time \<Rightarrow> Time \<Rightarrow> Time" where
  "max_Time a b = (if unix_nanos a < unix_nanos b then b else a)"

text \<open>The accumulators of a group at its first document, and at each further one.\<close>

definition group_new :: "MedicalRecord \<Rightarrow> summary" where
  "group_new d =
     \<lparr>summary_id = PatientID d,
      total_records = 1,
      record_types = [RecordType d],
      latest_record = CreatedAt d,
      total_diagnoses = size_ifNull (Diagnosis d),
      total_prescriptions = size_ifNull (Prescriptions d),
      total_lab_results = size_ifNull (LabResults d)\<rparr>"

definition group_add :: "summary \<Rightarrow> MedicalRecord \<Rightarrow> summary" where
  "group_add s d =
     s\<lparr>total_records := total_records s + 1,
       record_types := List.insert (RecordType d) (record_types s),
       latest_record := max_Time (latest_record s) (CreatedAt d),
       total_diagnoses := total_diagnoses s + size_ifNull (Diagnosis d),
       total_prescriptions := total_prescriptions s + size_ifNull (Prescriptions d),
       total_lab_results := total_lab_results s + size_ifNull (LabResults d)\<rparr>"

text \<open>\<open>$group\<close> by \<open>$patient_id\<close>: each document joins the group of its key or opens one.\<close>

fun group_step :: "summary list \<Rightarrow> MedicalRecord \<Rightarrow> summary list" where
  "group_step [] d = [group_new d]"
| "group_step (s # ss) d =
     (if summary_id s = PatientID d then group_add s d # ss else s # group_step ss d)"

definition match_stage :: "string \<Rightarrow> collection \<Rightarrow> collection" where
  "match_stage patientID db = filter (\<lambda>d. PatientID d = patientID) db"

definition group_stage :: "collection \<Rightarrow> summary list" where
  "group_stage docs = foldl group_step [] docs"

definition Aggregate :: "faults \<Rightarrow> collection \<Rightarrow> string \<Rightarrow> driver_error + summary list" where
  "Aggregate fl db patientID =
     (if fl CallAggregate then Inl TransportError
      else Inr (group_stage (match_stage patientID db)))"

section \<open>\<open>strconv.Atoi\<close> and Go's integer division\<close>

definition digit_val :: "char \<Rightarrow> int option" where
  "digit_val c =
     (let n = of_char c :: int in if 48 \<le> n \<and> n \<le> 57 then Some (n - 48) else None)"

definition maxUint64 :: int where
  "maxUint64 = 2 ^ 64 - 1"

text \<open>
  \<open>ParseUint\<close> in base 10, from the left: \<open>None\<close> is a syntax error; on overflow the scan
  stops with the largest value and a range error (\<open>False\<close>).
\<close>

fun ParseUint_digits :: "int \<Rightarrow> string \<Rightarrow> (int \<times> bool) option" where
  "ParseUint_digits n [] = Some (n, True)"
| "ParseUint_digits n (c # cs) =
     (case digit_val c of
        None \<Rightarrow> None
      | Some d \<Rightarrow>
          if n * 10 + d > maxUint64 then Some (maxUint64, False)
          else ParseUint_digits (n * 10 + d) cs)"

definition ParseUint :: "string \<Rightarrow> (int \<times> bool) option" where
  "ParseUint s = (if s = [] then None else ParseUint_digits 0 s)"

text \<open>
  \<open>ParseInt(s, 10, 0)\<close>: the value and whether the error is nil. A syntax error gives 0;
  a range error gives the nearest bound.
\<close>

definition ParseInt :: "string \<Rightarrow> go_int \<times> bool" where
  "ParseInt s =
     (case s of
        [] \<Rightarrow> (0, False)
      | c # cs \<Rightarrow>
          (let neg = (c = CHR ''-'');
               digits = (if c = CHR ''+'' \<or> c = CHR ''-'' then cs else s)
           in case ParseUint digits of
                None \<Rightarrow> (0, False)
              | Some (un, ok) \<Rightarrow>
                  if \<not> neg \<and> un \<ge> 2 ^ 63 then (word_of_int (2 ^ 63 - 1), False)
                  else if neg \<and> un > 2 ^ 63 then (word_of_int (- (2 ^ 63)), False)
                  else (if neg then - word_of_int un else word_of_int un, True)))"

text \<open>
  \<open>Atoi\<close> has a fast path for short strings that computes the same value as
  \<open>ParseInt(s, 10, 0)\<close>, which it calls otherwise.
\<close>

definition Atoi :: "string \<Rightarrow> go_int \<times> bool" where
  "Atoi s = ParseInt s"

text \<open>
  Go's \<open>/\<close> on \<open>int\<close> for a divisor other than zero: the quotient truncated towards zero,
  wrapped to 64 bits. A zero divisor panics; the caller checks it.
\<close>

definition go_div :: "go_int \<Rightarrow> go_int \<Rightarrow> go_int" where
  "go_div a b = word_of_int (sint a sdiv sint b)"

section \<open>Responses\<close>

text \<open>The pagination object of the list handler, field by JSON key.\<close>

record list_page =
  page_records :: "MedicalRecord list"
  page_total :: go_int
  page_page :: go_int
  page_limit :: go_int
  page_total_pages :: go_int
  page_has_next :: bool
  page_has_previous :: bool

text \<open>
  \<open>ErrorBody m\<close> is \<open>gin.H{"error": m}\<close>; \<open>ValidationErrorBody es\<close> is the same object with
  the message of the validator's error list, one line per entry naming field and tag.
\<close>

datatype body =
  NoBody
  | ErrorBody string
  | ValidationErrorBody "FieldError list"
  | RecordBody MedicalRecord
  | ListBody list_page
  | SummaryBody summary

record response =
  status :: nat
  body :: body

definition JSON :: "nat \<Rightarrow> body \<Rightarrow> response" where
  "JSON code b = \<lparr>status = code, body = b\<rparr>"

text \<open>\<open>gin.Recovery()\<close>: a panic of the handler becomes status 500 with no body.\<close>

definition Recovery :: "string + response \<Rightarrow> response" where
  "Recovery out = (case out of Inl panic \<Rightarrow> \<lparr>status = 500, body = NoBody\<rparr> | Inr r \<Rightarrow> r)"

section \<open>The handlers\<close>

text \<open>The query string of a list request: each parameter is absent or has a value.\<close>

record list_request =
  param_patient_id :: "string option"
  param_record_type :: "string option"
  param_page :: "string option"
  param_limit :: "string option"

definition Query :: "string option \<Rightarrow> string" where
  "Query v = (case v of None \<Rightarrow> [] | Some s \<Rightarrow> s)"

definition DefaultQuery :: "string option \<Rightarrow> string \<Rightarrow> string" where
  "DefaultQuery v dflt = (case v of None \<Rightarrow> dflt | Some s \<Rightarrow> s)"

text \<open>
  The filter of the list handler: a key is set only for a parameter that is not empty.
\<close>

definition list_filter :: "string \<Rightarrow> string \<Rightarrow> query_filter" where
  "list_filter patientID recordType =
     \<lparr>filter_patient_id = (if patientID \<noteq> [] then Some patientID else None),
      filter_record_type = (if recordType \<noteq> [] then Some recordType else None)\<rparr>"

text \<open>
  \<open>getMedicalRecords\<close>. The result is \<open>Inl\<close> when the handler panics. Both \<open>Atoi\<close> errors
  are dropped by the source (\<open>pageNum, _ := ...\<close>); \<open>totalCount\<close> is the source's \<open>total\<close>.
\<close>

definition getMedicalRecords :: "faults \<Rightarrow> collection \<Rightarrow> list_request \<Rightarrow> collection \<times> (string + response)" where
  "getMedicalRecords fl db req =
     (let patientID = Query (param_patient_id req);
          recordType = Query (param_record_type req);
          pageNum = fst (Atoi (DefaultQuery (param_page req) ''1''));
          limitNum = fst (Atoi (DefaultQuery (param_limit req) ''10''));
          skip = (pageNum - 1) * limitNum;
          flt = list_filter patientID recordType
      in case CountDocuments fl db flt of
           Inl err \<Rightarrow> (db, Inr (JSON 500 (ErrorBody ''Failed to count records'')))
         | Inr totalCount \<Rightarrow>
             (case Find fl db flt skip limitNum of
                Inl err \<Rightarrow> (db, Inr (JSON 500 (ErrorBody ''Failed to fetch records'')))
              | Inr cursor \<Rightarrow>
                  (case cursor_All fl cursor of
                     Inl err \<Rightarrow> (db, Inr (JSON 500 (ErrorBody ''Failed to decode records'')))
                   | Inr records \<Rightarrow>
                       if limitNum = 0 then (db, Inl ''runtime error: integer divide by zero'')
                       else
                         (let totalPages = go_div (totalCount + limitNum - 1) limitNum
                          in (db, Inr (JSON 200 (ListBody
                                \<lparr>page_records = records,
                                 page_total = totalCount,
                                 page_page = pageNum,
                                 page_limit = limitNum,
                                 page_total_pages = totalPages,
                                 page_has_next = (sint pageNum < sint totalPages),
                                 page_has_previous = (sint pageNum > 1)\<rparr>)))))))"

definition getMedicalRecord :: "faults \<Rightarrow> collection \<Rightarrow> string \<Rightarrow> collection \<times> response" where
  "getMedicalRecord fl db idParam =
     (case ObjectIDFromHex idParam of
        None \<Rightarrow> (db, JSON 400 (ErrorBody ''Invalid record ID''))
      | Some objectID \<Rightarrow>
          (case FindOne fl db objectID of
             Inl err \<Rightarrow>
               if err = ErrNoDocuments then (db, JSON 404 (ErrorBody ''Medical record not found''))
               else (db, JSON 500 (ErrorBody ''Failed to fetch record''))
           | Inr record \<Rightarrow> (db, JSON 200 (RecordBody record))))"

text \<open>
  The request body as \<open>ShouldBindJSON\<close> leaves it: \<open>Inl\<close> the decoding error's message, or
  \<open>Inr\<close> the struct with every absent key at its zero value. Gin's own validation reads
  \<open>binding\<close> tags, of which the struct has none.

  \<open>createMedicalRecord\<close>: \<open>new_id\<close> is what \<open>primitive.NewObjectID()\<close> returns, \<open>now1\<close> and
  \<open>now2\<close> are the two readings of \<open>time.Now()\<close>.
\<close>

definition createMedicalRecord :: "faults \<Rightarrow> ObjectID \<Rightarrow> ObjectID \<Rightarrow> Time \<Rightarrow> Time \<Rightarrow> collection \<Rightarrow> string + MedicalRecord \<Rightarrow> collection \<times> response" where
  "createMedicalRecord fl new_id drv_id now1 now2 db payload =
     (case payload of
        Inl err \<Rightarrow> (db, JSON 400 (ErrorBody err))
      | Inr bound \<Rightarrow>
          (case validate_Struct bound of
             e # es \<Rightarrow> (db, JSON 400 (ValidationErrorBody (e # es)))
           | [] \<Rightarrow>
               (let record = bound\<lparr>ID := new_id, CreatedAt := now1, UpdatedAt := now2\<rparr>
                in case InsertOne fl drv_id db record of
                     Inl err \<Rightarrow> (db, JSON 500 (ErrorBody ''Failed to create record''))
                   | Inr db' \<Rightarrow> (db', JSON 201 (RecordBody record)))))"

definition updateMedicalRecord :: "faults \<Rightarrow> Time \<Rightarrow> collection \<Rightarrow> string \<Rightarrow> string + MedicalRecord \<Rightarrow> collection \<times> response" where
  "updateMedicalRecord fl now db idParam payload =
     (case ObjectIDFromHex idParam of
        None \<Rightarrow> (db, JSON 400 (ErrorBody ''Invalid record ID''))
      | Some objectID \<Rightarrow>
          (case payload of
             Inl err \<Rightarrow> (db, JSON 400 (ErrorBody err))
           | Inr bound \<Rightarrow>
               (let updateData = bound\<lparr>UpdatedAt := now\<rparr>
                in case UpdateOne fl db objectID updateData of
                     Inl err \<Rightarrow> (db, JSON 500 (ErrorBody ''Failed to update record''))
                   | Inr (db', MatchedCount) \<Rightarrow>
                       if MatchedCount = 0
                       then (db', JSON 404 (ErrorBody ''Medical record not found''))
                       else
                         (case FindOne fl db' objectID of
                            Inl err \<Rightarrow> (db', JSON 500 (ErrorBody ''Failed to fetch updated record''))
                          | Inr updatedRecord \<Rightarrow> (db', JSON 200 (RecordBody updatedRecord))))))"

definition deleteMedicalRecord :: "faults \<Rightarrow> collection \<Rightarrow> string \<Rightarrow> collection \<times> response" where
  "deleteMedicalRecord fl db idParam =
     (case ObjectIDFromHex idParam of
        None \<Rightarrow> (db, JSON 400 (ErrorBody ''Invalid record ID''))
      | Some objectID \<Rightarrow>
          (case DeleteOne fl db objectID of
             Inl err \<Rightarrow> (db, JSON 500 (ErrorBody ''Failed to delete record''))
           | Inr (db', DeletedCount) \<Rightarrow>
               if DeletedCount = 0
               then (db', JSON 404 (ErrorBody ''Medical record not found''))
               else (db', \<lparr>status = 204, body = NoBody\<rparr>)))"

definition getPatientSummary :: "faults \<Rightarrow> collection \<Rightarrow> string \<Rightarrow> collection \<times> response" where
  "getPatientSummary fl db patientID =
     (if patientID = [] then (db, JSON 400 (ErrorBody ''Patient ID is required''))
      else
        (case Aggregate fl db patientID of
           Inl err \<Rightarrow> (db, JSON 500 (ErrorBody ''Failed to generate summary''))
         | Inr cursor \<Rightarrow>
             (case cursor_All fl cursor of
                Inl err \<Rightarrow> (db, JSON 500 (ErrorBody ''Failed to decode summary''))
              | Inr summaries \<Rightarrow>
                  (case summaries of
                     [] \<Rightarrow> (db, JSON 404 (ErrorBody ''No records found for patient''))
                   | s # ss \<Rightarrow> (db, JSON 200 (SummaryBody s))))))"

section \<open>Sample values\<close>

text \<open>
  \<open>blank_record\<close> is the zero value of the struct (\<open>var record MedicalRecord\<close>);
  \<open>checkup_payload\<close> is the body
  \<open>{"patient_id":"p1","doctor_id":"d1","record_type":"consultation","title":"Checkup"}\<close>
  once bound.
\<close>

definition blank_record :: MedicalRecord where
  "blank_record =
     \<lparr>ID = NilObjectID, PatientID = [], DoctorID = [], AppointmentID = [], RecordType = [],
      Title = [], Description = [], Diagnosis = None, Prescriptions = None, LabResults = None,
      VitalSigns = None, Attachments = None, IsConfidential = False,
      CreatedAt = zero_Time, UpdatedAt = zero_Time, CreatedBy = [], LastModifiedBy = []\<rparr>"

definition checkup_payload :: MedicalRecord where
  "checkup_payload =
     blank_record\<lparr>PatientID := ''p1'', DoctorID := ''d1'', RecordType := ''consultation'',
       Title := ''Checkup''\<rparr>"

definition sample_id :: ObjectID where
  "sample_id = [101, 171, 0, 1, 2, 3, 4, 5, 6, 7, 8, 15]"

definition sample_hex :: string where
  "sample_hex = ''65ab0001020304050607080f''"

definition other_hex :: string where
  "other_hex = ''000000000000000000000001''"

definition no_faults :: faults where
  "no_faults = (\<lambda>c. False)"

definition sample_created :: Time where
  "sample_created = \<lparr>unix_nanos = 1700000000123000000, zone_offset = 0\<rparr>"

definition sample_stored :: MedicalRecord where
  "sample_stored =
     checkup_payload\<lparr>ID := sample_id, CreatedAt := sample_created, UpdatedAt := sample_created\<rparr>"

definition sample_db :: collection where
  "sample_db = [sample_stored]"

definition fever :: Diagnosis where
  "fever = \<lparr>Code = ''R50.9'', Description = ''Fever'', Severity = ''mild'', Status = ''active'',
            DateDiagnosed = sample_created\<rparr>"

definition cough :: Diagnosis where
  "cough = \<lparr>Code = ''R05'', Description = ''Cough'', Severity = ''moderate'', Status = ''resolved'',
            DateDiagnosed = sample_created\<rparr>"

definition summary_db :: collection where
  "summary_db =
     [sample_stored,
      sample_stored\<lparr>ID := [0, 0, 0, 0, 0, 0, 0, 0, 0, 0, 0, 2], PatientID := ''p2'',
        RecordType := ''diagnosis'', Diagnosis := Some [fever, cough]\<rparr>,
      sample_stored\<lparr>ID := [0, 0, 0, 0, 0, 0, 0, 0, 0, 0, 0, 3], PatientID := ''p2''\<rparr>]"





definition malformed_limit_request :: list_request where
  "malformed_limit_request =
     \<lparr>param_patient_id = None, param_record_type = None, param_page = None,
      param_limit = Some ''abc''\<rparr>"

definition malformed_page_request :: list_request where
  "malformed_page_request =
     \<lparr>param_patient_id = None, param_record_type = None, param_page = Some ''abc'',
      param_limit = None\<rparr>"

definition bogus_diagnosis :: Diagnosis where
  "bogus_diagnosis = fever\<lparr>Severity := ''bogus''\<rparr>"

definition bogus_nested_payload :: MedicalRecord where
  "bogus_nested_payload = checkup_payload\<lparr>Diagnosis := Some [bogus_diagnosis]\<rparr>"

definition unknown_type_payload :: MedicalRecord where
  "unknown_type_payload = checkup_payload\<lparr>RecordType := ''unknown''\<rparr>"

text \<open>The record a response carries, if it carries one.\<close>

definition response_record :: "response \<Rightarrow> MedicalRecord option" where
  "response_record r = (case body r of RecordBody x \<Rightarrow> Some x | _ \<Rightarrow> None)"

text \<open>
  Time values the store keeps as they are: whole milliseconds, in UTC. A record's
  client-supplied time values are those of its nested entries.
\<close>

definition whole_ms_utc :: "Time \<Rightarrow> bool" where
  "whole_ms_utc t = (unix_nanos t mod 1000000 = 0 \<and> zone_offset t = 0)"

definition opt_all :: "('a \<Rightarrow> bool) \<Rightarrow> 'a list option \<Rightarrow> bool" where
  "opt_all P v = (case v of None \<Rightarrow> True | Some xs \<Rightarrow> list_all P xs)"

definition client_times_exact :: "MedicalRecord \<Rightarrow> bool" where
  "client_times_exact p =
     (opt_all (\<lambda>d. whole_ms_utc (DateDiagnosed d)) (Diagnosis p) \<and>
      opt_all (\<lambda>x. whole_ms_utc (PrescribedDate x) \<and> whole_ms_utc (StartDate x) \<and>
                 whole_ms_utc (EndDate x)) (Prescriptions p) \<and>
      opt_all (\<lambda>l. whole_ms_utc (TestDate l)) (LabResults p) \<and>
      (case VitalSigns p of None \<Rightarrow> True | Some v \<Rightarrow> whole_ms_utc (MeasuredAt v)) \<and>
      opt_all (\<lambda>a. whole_ms_utc (UploadedAt a)) (Attachments p))"

definition later_time :: Time where
  "later_time = \<lparr>unix_nanos = 1700000500000999999, zone_offset = 3600\<rparr>"

definition resent_payload :: MedicalRecord where
  "resent_payload = sample_stored\<lparr>Title := ''Follow-up''\<rparr>"

definition title_only_payload :: MedicalRecord where
  "title_only_payload = blank_record\<lparr>Title := ''Follow-up''\<rparr>"

definition precise_fever :: Diagnosis where
  "precise_fever = fever\<lparr>DateDiagnosed := \<lparr>unix_nanos = 1700000000123456789, zone_offset = 0\<rparr>\<rparr>"

definition precise_payload :: MedicalRecord where
  "precise_payload = checkup_payload\<lparr>Diagnosis := Some [precise_fever]\<rparr>"

section \<open>Lookups in a collection with unique identifiers\<close>

lemma find_id_None: "oid \<notin> ID ` set db \<Longrightarrow> find (\<lambda>d. ID d = oid) db = None"
  by (auto simp: find_None_iff)

lemma find_id_Some: "store_wf db \<Longrightarrow> d \<in> set db \<Longrightarrow> find (\<lambda>x. ID x = ID d) db = Some d"
  unfolding store_wf_def
proof (induction db)
  case Nil
  then show ?case by simp
next
  case (Cons a db)
  then show ?case by (cases "ID a = ID d") (auto simp: image_iff)
qed

lemma delete_first_filter: "store_wf db \<Longrightarrow> delete_first (\<lambda>d. ID d = oid) db = filter (\<lambda>d. ID d \<noteq> oid) db"
  unfolding store_wf_def
proof (induction db)
  case Nil
  then show ?case by simp
next
  case (Cons a db)
  have "ID a = oid \<Longrightarrow> filter (\<lambda>d. ID d \<noteq> oid) db = db"
    using Cons.prems by (auto simp: filter_id_conv image_iff)
  with Cons show ?case by auto
qed

lemma sample_hex_parses: "ObjectIDFromHex sample_hex = Some sample_id"
  by (simp add: ObjectIDFromHex_def sample_hex_def sample_id_def fromHexChar_def)

lemma other_hex_parses: "ObjectIDFromHex other_hex = Some [0, 0, 0, 0, 0, 0, 0, 0, 0, 0, 0, 1]"
  by (simp add: ObjectIDFromHex_def other_hex_def fromHexChar_def)

lemma not_hex_rejected: "ObjectIDFromHex ''not-a-valid-id'' = None"
  by (simp add: ObjectIDFromHex_def)

lemma sample_db_wf: "store_wf sample_db"
  by (simp add: store_wf_def sample_db_def)

lemma ID_sample_stored: "ID sample_stored = sample_id"
  by (simp add: sample_stored_def)

text \<open>The defining equations by which the handlers are evaluated on the sample values.\<close>

lemmas eval_list =
  getMedicalRecords_def Query_def DefaultQuery_def Atoi_def ParseInt_def ParseUint_def
  digit_val_def maxUint64_def CountDocuments_def Find_def cursor_All_def list_filter_def
  matches_def go_div_def JSON_def no_faults_def Let_def Recovery_def

lemmas eval_fixtures =
  sample_db_def sample_stored_def checkup_payload_def blank_record_def sample_created_def
  sample_id_def zero_Time_def NilObjectID_def

lemmas eval_crud =
  createMedicalRecord_def updateMedicalRecord_def getMedicalRecord_def deleteMedicalRecord_def
  validate_Struct_def hasValue_def isOneOf_def record_type_values_def
  InsertOne_def UpdateOne_def FindOne_def DeleteOne_def apply_set_def
  bson_MedicalRecord_def bson_Time_def NewDateTimeFromTime_def DateTime_Time_def
  bson_Diagnosis_def JSON_def no_faults_def Let_def

section \<open>Fetching one record\<close>

text \<open>
  Claim C6. A get-by-id request whose identifier is not 24 hexadecimal characters is
  answered 400 "Invalid record ID"; one whose identifier parses but belongs to no stored
  record is answered 404 "Medical record not found"; one whose identifier belongs to a
  stored record is answered 200 with that record in full (the lookup call itself not
  failing). In every case, also when the lookup fails, the collection is left as it was.
\<close>

theorem get_by_id_contract:
  "(ObjectIDFromHex idParam = None \<longrightarrow>
      getMedicalRecord fl db idParam = (db, JSON 400 (ErrorBody ''Invalid record ID''))) \<and>
   (\<forall>oid. ObjectIDFromHex idParam = Some oid \<and> \<not> fl CallFindOne \<and> oid \<notin> ID ` set db \<longrightarrow>
      getMedicalRecord fl db idParam = (db, JSON 404 (ErrorBody ''Medical record not found''))) \<and>
   (\<forall>d. ObjectIDFromHex idParam = Some (ID d) \<and> \<not> fl CallFindOne \<and> store_wf db \<and> d \<in> set db \<longrightarrow>
      getMedicalRecord fl db idParam = (db, JSON 200 (RecordBody d))) \<and>
   fst (getMedicalRecord fl db idParam) = db"
  by (auto simp: getMedicalRecord_def FindOne_def find_id_None find_id_Some split: option.splits)

theorem get_by_id_contract_witness:
  "getMedicalRecord no_faults sample_db ''not-a-valid-id'' =
     (sample_db, JSON 400 (ErrorBody ''Invalid record ID'')) \<and>
   getMedicalRecord no_faults sample_db other_hex =
     (sample_db, JSON 404 (ErrorBody ''Medical record not found'')) \<and>
   getMedicalRecord no_faults sample_db sample_hex = (sample_db, JSON 200 (RecordBody sample_stored))"
proof -
  have other: "[0, 0, 0, 0, 0, 0, 0, 0, 0, 0, 0, 1] \<notin> ID ` set sample_db"
    by (simp add: sample_db_def sample_stored_def sample_id_def)
  have mem: "sample_stored \<in> set sample_db" by (simp add: sample_db_def)
  have nf: "\<not> no_faults CallFindOne" by (simp add: no_faults_def)
  show ?thesis
    using get_by_id_contract [of "''not-a-valid-id''" no_faults sample_db]
      get_by_id_contract [of other_hex no_faults sample_db]
      get_by_id_contract [of sample_hex no_faults sample_db]
      not_hex_rejected other_hex_parses sample_hex_parses sample_db_wf other mem nf ID_sample_stored
    by auto
qed

section \<open>Deleting a record\<close>

text \<open>
  Claim C9. For an identifier that parses, on a collection with unique identifiers and
  with the driver calls answering: deleting a stored record is answered 204 with no body
  and leaves exactly the other documents, and fetching the identifier afterwards is
  answered 404; deleting an identifier of no stored record is answered 404 and changes
  nothing.
\<close>

theorem delete_contract:
  assumes "store_wf db" and "ObjectIDFromHex idParam = Some oid"
    and "\<not> fl CallDeleteOne" and "\<not> fl' CallFindOne"
  shows "(oid \<in> ID ` set db \<longrightarrow>
            deleteMedicalRecord fl db idParam =
              (filter (\<lambda>d. ID d \<noteq> oid) db, \<lparr>status = 204, body = NoBody\<rparr>) \<and>
            getMedicalRecord fl' (filter (\<lambda>d. ID d \<noteq> oid) db) idParam =
              (filter (\<lambda>d. ID d \<noteq> oid) db, JSON 404 (ErrorBody ''Medical record not found''))) \<and>
         (oid \<notin> ID ` set db \<longrightarrow>
            deleteMedicalRecord fl db idParam = (db, JSON 404 (ErrorBody ''Medical record not found'')))"
proof (intro conjI impI)
  assume "oid \<notin> ID ` set db"
  then show "deleteMedicalRecord fl db idParam = (db, JSON 404 (ErrorBody ''Medical record not found''))"
    using assms by (simp add: deleteMedicalRecord_def DeleteOne_def find_id_None)
next
  assume "oid \<in> ID ` set db"
  then obtain d where "find (\<lambda>d. ID d = oid) db = Some d"
    by (cases "find (\<lambda>d. ID d = oid) db") (auto simp: find_None_iff)
  then show "deleteMedicalRecord fl db idParam =
              (filter (\<lambda>d. ID d \<noteq> oid) db, \<lparr>status = 204, body = NoBody\<rparr>)"
    using assms by (simp add: deleteMedicalRecord_def DeleteOne_def delete_first_filter)
next
  have "oid \<notin> ID ` set (filter (\<lambda>d. ID d \<noteq> oid) db)" by auto
  then show "getMedicalRecord fl' (filter (\<lambda>d. ID d \<noteq> oid) db) idParam =
              (filter (\<lambda>d. ID d \<noteq> oid) db, JSON 404 (ErrorBody ''Medical record not found''))"
    using assms by (simp add: getMedicalRecord_def FindOne_def find_id_None)
qed

theorem delete_contract_witness:
  "deleteMedicalRecord no_faults sample_db sample_hex = ([], \<lparr>status = 204, body = NoBody\<rparr>) \<and>
   getMedicalRecord no_faults [] sample_hex = ([], JSON 404 (ErrorBody ''Medical record not found'')) \<and>
   deleteMedicalRecord no_faults sample_db other_hex =
     (sample_db, JSON 404 (ErrorBody ''Medical record not found''))"
proof -
  have other: "[0, 0, 0, 0, 0, 0, 0, 0, 0, 0, 0, 1] \<notin> ID ` set sample_db"
    by (simp add: sample_db_def sample_stored_def sample_id_def)
  have mem: "sample_id \<in> ID ` set sample_db" by (simp add: sample_db_def sample_stored_def)
  have flt: "filter (\<lambda>d. ID d \<noteq> sample_id) sample_db = []"
    by (simp add: sample_db_def sample_stored_def)
  have nf: "\<not> no_faults CallFindOne" "\<not> no_faults CallDeleteOne" by (simp_all add: no_faults_def)
  show ?thesis
    using delete_contract [where db = sample_db and idParam = sample_hex and oid = sample_id
        and fl = no_faults and fl' = no_faults]
      delete_contract [where db = sample_db and idParam = other_hex
        and oid = "[0, 0, 0, 0, 0, 0, 0, 0, 0, 0, 0, 1]" and fl = no_faults and fl' = no_faults]
      sample_db_wf sample_hex_parses other_hex_parses nf other mem flt
    by simp
qed

section \<open>Updating a record\<close>

text \<open>
  Claim C10. An update request whose identifier does not parse is answered 400
  "Invalid record ID" with the collection unchanged, whatever the request body is (also
  one that would not decode) and whatever the driver calls would do: neither is reached.
\<close>

theorem update_invalid_id_rejected:
  "ObjectIDFromHex idParam = None \<Longrightarrow>
   updateMedicalRecord fl now db idParam payload = (db, JSON 400 (ErrorBody ''Invalid record ID''))"
  by (simp add: updateMedicalRecord_def)

theorem update_invalid_id_rejected_witness:
  "ObjectIDFromHex ''not-a-valid-id'' = None \<and>
   updateMedicalRecord no_faults sample_created sample_db ''not-a-valid-id'' (Inr checkup_payload) =
     (sample_db, JSON 400 (ErrorBody ''Invalid record ID''))"
  using update_invalid_id_rejected [OF not_hex_rejected, of no_faults sample_created sample_db "Inr checkup_payload"]
    not_hex_rejected by simp

section \<open>The patient summary\<close>

lemma group_step_same:
  "list_all (\<lambda>d. PatientID d = summary_id s) ds \<Longrightarrow>
   foldl group_step [s] ds = [foldl group_add s ds]"
proof (induction ds arbitrary: s)
  case Nil
  then show ?case by simp
next
  case (Cons d ds)
  have "summary_id (group_add s d) = summary_id s" by (simp add: group_add_def)
  with Cons show ?case by simp
qed

lemma group_add_totals:
  "total_diagnoses (foldl group_add s ds) = total_diagnoses s + (\<Sum>r\<leftarrow>ds. size_ifNull (Diagnosis r))"
  "total_prescriptions (foldl group_add s ds) = total_prescriptions s + (\<Sum>r\<leftarrow>ds. size_ifNull (Prescriptions r))"
  "total_lab_results (foldl group_add s ds) = total_lab_results s + (\<Sum>r\<leftarrow>ds. size_ifNull (LabResults r))"
  by (induction ds arbitrary: s) (simp_all add: group_add_def)

lemma group_stage_one_patient:
  assumes "list_all (\<lambda>r. PatientID r = p) (d # ds)"
  shows "group_stage (d # ds) = [foldl group_add (group_new d) ds]"
proof -
  have "list_all (\<lambda>r. PatientID r = summary_id (group_new d)) ds"
    using assms by (simp add: group_new_def)
  then show ?thesis by (simp add: group_stage_def group_step_same)
qed

lemma match_stage_all: "list_all (\<lambda>r. PatientID r = p) (match_stage p db)"
  by (simp add: match_stage_def list_all_iff)

lemma summary_of_patient:
  assumes "patientID \<noteq> []" and "\<not> fl CallAggregate" and "\<not> fl CallCursorAll"
  shows
    "(filter (\<lambda>r. PatientID r = patientID) db \<noteq> [] \<longrightarrow>
        (\<exists>s. getPatientSummary fl db patientID = (db, JSON 200 (SummaryBody s)) \<and>
          total_diagnoses s =
            (\<Sum>r\<leftarrow>filter (\<lambda>r. PatientID r = patientID) db.
               case Diagnosis r of None \<Rightarrow> 0 | Some xs \<Rightarrow> int (length xs)) \<and>
          total_prescriptions s =
            (\<Sum>r\<leftarrow>filter (\<lambda>r. PatientID r = patientID) db.
               case Prescriptions r of None \<Rightarrow> 0 | Some xs \<Rightarrow> int (length xs)) \<and>
          total_lab_results s =
            (\<Sum>r\<leftarrow>filter (\<lambda>r. PatientID r = patientID) db.
               case LabResults r of None \<Rightarrow> 0 | Some xs \<Rightarrow> int (length xs)))) \<and>
     (filter (\<lambda>r. PatientID r = patientID) db = [] \<longrightarrow>
        getPatientSummary fl db patientID =
          (db, JSON 404 (ErrorBody ''No records found for patient'')))"
proof (cases "match_stage patientID db")
  case Nil
  then show ?thesis
    using assms
    by (simp add: getPatientSummary_def Aggregate_def cursor_All_def group_stage_def match_stage_def)
next
  case (Cons d ds)
  then have all: "list_all (\<lambda>r. PatientID r = patientID) (d # ds)"
    using match_stage_all [of patientID db] by simp
  let ?s = "foldl group_add (group_new d) ds"
  have resp: "getPatientSummary fl db patientID = (db, JSON 200 (SummaryBody ?s))"
    using assms Cons group_stage_one_patient [OF all]
    by (simp add: getPatientSummary_def Aggregate_def cursor_All_def)
  have flt: "filter (\<lambda>r. PatientID r = patientID) db = d # ds"
    using Cons by (simp add: match_stage_def)
  have "total_diagnoses ?s = (\<Sum>r\<leftarrow>d # ds. size_ifNull (Diagnosis r))"
    and "total_prescriptions ?s = (\<Sum>r\<leftarrow>d # ds. size_ifNull (Prescriptions r))"
    and "total_lab_results ?s = (\<Sum>r\<leftarrow>d # ds. size_ifNull (LabResults r))"
    by (simp_all add: group_add_totals group_new_def)
  with resp flt show ?thesis
    unfolding size_ifNull_def by auto
qed

text \<open>
  Claim C4, amended. With the aggregation answering: for every patient identifier that is
  not empty, when at least one stored record has that patient identifier the summary is
  answered 200 and its \<open>total_diagnoses\<close>, \<open>total_prescriptions\<close> and \<open>total_lab_results\<close> are
  the sums, over the patient's records, of the lengths of the respective sequences, a
  null sequence counting as zero, and when no stored record has it the answer is 404
  "No records found for patient"; an empty patient identifier is answered 400
  "Patient ID is required", whatever the collection holds.
\<close>

theorem patient_summary_counts:
  assumes "\<not> fl CallAggregate" and "\<not> fl CallCursorAll"
  shows
    "(patientID = [] \<longrightarrow>
        getPatientSummary fl db patientID = (db, JSON 400 (ErrorBody ''Patient ID is required''))) \<and>
     (patientID \<noteq> [] \<and> filter (\<lambda>r. PatientID r = patientID) db \<noteq> [] \<longrightarrow>
        (\<exists>s. getPatientSummary fl db patientID = (db, JSON 200 (SummaryBody s)) \<and>
          total_diagnoses s =
            (\<Sum>r\<leftarrow>filter (\<lambda>r. PatientID r = patientID) db.
               case Diagnosis r of None \<Rightarrow> 0 | Some xs \<Rightarrow> int (length xs)) \<and>
          total_prescriptions s =
            (\<Sum>r\<leftarrow>filter (\<lambda>r. PatientID r = patientID) db.
               case Prescriptions r of None \<Rightarrow> 0 | Some xs \<Rightarrow> int (length xs)) \<and>
          total_lab_results s =
            (\<Sum>r\<leftarrow>filter (\<lambda>r. PatientID r = patientID) db.
               case LabResults r of None \<Rightarrow> 0 | Some xs \<Rightarrow> int (length xs)))) \<and>
     (patientID \<noteq> [] \<and> filter (\<lambda>r. PatientID r = patientID) db = [] \<longrightarrow>
        getPatientSummary fl db patientID =
          (db, JSON 404 (ErrorBody ''No records found for patient'')))"
proof (cases "patientID = []")
  case True
  then show ?thesis by (simp add: getPatientSummary_def)
next
  case False
  then show ?thesis using summary_of_patient [OF False assms, of db] by simp
qed

theorem patient_summary_counts_witness:
  "(\<exists>s. getPatientSummary no_faults summary_db ''p2'' = (summary_db, JSON 200 (SummaryBody s)) \<and>
        total_diagnoses s = 2 \<and> total_prescriptions s = 0 \<and> total_lab_results s = 0) \<and>
   getPatientSummary no_faults summary_db ''p9'' =
     (summary_db, JSON 404 (ErrorBody ''No records found for patient'')) \<and>
   getPatientSummary no_faults summary_db [] =
     (summary_db, JSON 400 (ErrorBody ''Patient ID is required''))"
proof -
  have nf: "\<not> no_faults CallAggregate" "\<not> no_faults CallCursorAll"
    by (simp_all add: no_faults_def)
  show ?thesis
    using patient_summary_counts [OF nf, of "''p2''" summary_db]
      patient_summary_counts [OF nf, of "''p9''" summary_db]
      patient_summary_counts [OF nf, of "[]" summary_db]
    by (simp add: summary_db_def sample_stored_def checkup_payload_def blank_record_def)
qed

text \<open>
  The claim as stated fails at the empty patient identifier. On the empty collection,
  where no record matches, the answer is 400 and not 404. And after an update with a
  body that has only a title, the stored record has an empty patient identifier, so a
  record matches the empty identifier, yet the answer is 400 and no totals are returned.
\<close>

theorem patient_summary_counterexample:
  "filter (\<lambda>r. PatientID r = []) [] = [] \<and>
   getPatientSummary no_faults [] [] = ([], JSON 400 (ErrorBody ''Patient ID is required'')) \<and>
   JSON 400 (ErrorBody ''Patient ID is required'') \<noteq>
     JSON 404 (ErrorBody ''No records found for patient'') \<and>
   filter (\<lambda>r. PatientID r = [])
     (fst (updateMedicalRecord no_faults later_time sample_db sample_hex (Inr title_only_payload))) \<noteq> [] \<and>
   status (snd (getPatientSummary no_faults
     (fst (updateMedicalRecord no_faults later_time sample_db sample_hex (Inr title_only_payload)))
     [])) = 400"
  using sample_hex_parses
  by (simp add: getPatientSummary_def eval_crud eval_fixtures title_only_payload_def later_time_def)

section \<open>Listing records: the pagination object\<close>


lemma sint_in_range: "- (2 ^ 63) \<le> k \<Longrightarrow> k < 2 ^ 63 \<Longrightarrow> sint (word_of_int k :: 64 word) = k"
  by (simp add: sint_sbintrunc' signed_take_bit_int_eq_self)

lemma sint_count: "n < 2 ^ 63 \<Longrightarrow> sint (of_nat n :: 64 word) = int n"
  using sint_in_range [of "int n"] by simp








section \<open>Evaluating the handlers on sample requests\<close>

text \<open>
  Claim C3 says that a list request with a malformed \<open>page\<close> or \<open>limit\<close> is served as page 1
  with the default size. The handler does not do so: \<open>Atoi\<close> gives 0 for a malformed
  string and the error is dropped. With \<open>?limit=abc\<close> the handler divides by zero and
  panics, which \<open>gin.Recovery\<close> turns into status 500; with \<open>?page=abc\<close> the skip is
  \<open>(0 - 1) * 10\<close>, the store refuses the negative skip and the answer is 500.
\<close>

theorem malformed_pagination_fails:
  "Atoi ''abc'' = (0, False) \<and>
   snd (getMedicalRecords no_faults sample_db malformed_limit_request) =
     Inl ''runtime error: integer divide by zero'' \<and>
   Recovery (snd (getMedicalRecords no_faults sample_db malformed_limit_request)) =
     \<lparr>status = 500, body = NoBody\<rparr> \<and>
   Recovery (snd (getMedicalRecords no_faults sample_db malformed_page_request)) =
     JSON 500 (ErrorBody ''Failed to fetch records'')"
  by (simp add: eval_list eval_fixtures malformed_limit_request_def malformed_page_request_def)

text \<open>
  Claim C7 says that a create request with an out-of-set enumerated value is refused
  and nothing is stored. For the enumerated fields of nested entries the handler does not
  do so: the struct validation never reaches the elements of a slice, so a diagnosis
  whose severity is outside its set (which \<open>validate_Diagnosis\<close>, the tags of the nested
  struct, would refuse) passes, the request is answered 201 and the record is stored.
\<close>

theorem create_accepts_bad_nested_enum:
  "validate_Diagnosis bogus_diagnosis = [(''Severity'', ''oneof'')] \<and>
   validate_Struct bogus_nested_payload = [] \<and>
   status (snd (createMedicalRecord no_faults sample_id sample_id sample_created sample_created []
      (Inr bogus_nested_payload))) = 201 \<and>
   map Diagnosis (fst (createMedicalRecord no_faults sample_id sample_id sample_created sample_created []
      (Inr bogus_nested_payload))) = [Some [bogus_diagnosis]]"
  by (simp add: eval_crud eval_fixtures bogus_nested_payload_def bogus_diagnosis_def fever_def
      validate_Diagnosis_def severity_values_def diagnosis_status_values_def)

text \<open>
  Claim C2 says that no create or update can store a record whose \<open>record_type\<close> is
  outside the five values. The update handler does not validate at all: a body with
  \<open>record_type = "unknown"\<close>, which \<open>validate_Struct\<close> refuses on create, is answered 200 on
  update and stored.
\<close>

theorem update_persists_bad_record_type:
  "validate_Struct unknown_type_payload = [(''RecordType'', ''oneof'')] \<and>
   status (snd (updateMedicalRecord no_faults sample_created sample_db sample_hex
      (Inr unknown_type_payload))) = 200 \<and>
   map RecordType (fst (updateMedicalRecord no_faults sample_created sample_db sample_hex
      (Inr unknown_type_payload))) = [''unknown''] \<and>
   ''unknown'' \<notin> set record_type_values"
  using sample_hex_parses
  by (simp add: eval_crud eval_fixtures unknown_type_payload_def)

section \<open>Hexadecimal identifiers round-trip\<close>

lemma hextable_all: "list_all (\<lambda>n. fromHexChar (hextable ! n) = Some (of_nat n)) [0..<16]"
  by code_simp

lemma fromHexChar_hextable: "n < 16 \<Longrightarrow> fromHexChar (hextable ! n) = Some (of_nat n)"
proof -
  assume "n < 16"
  then have "n \<in> set [0..<16]" by simp
  with hextable_all show ?thesis unfolding list_all_iff by blast
qed

lemma unat_hi: "unat (drop_bit 4 (b :: 8 word)) < 16"
proof -
  have "unat b < 2 ^ 8" using unsigned_less [of b] by simp
  then show ?thesis by (simp add: drop_bit_eq_div unat_div)
qed

lemma fifteen_mask: "(15 :: 8 word) = mask 4"
  by (simp add: mask_eq_exp_minus_1)

lemma unat_lo: "unat ((b :: 8 word) AND 15) < 16"
proof -
  have "unat (b AND 15) = unat b mod 16"
    unfolding fifteen_mask by (simp add: unat_mod take_bit_eq_mod flip: take_bit_eq_mask)
  then show ?thesis by simp
qed

lemma byte_split: "push_bit 4 (drop_bit 4 b) OR (b AND 15) = (b :: 8 word)"
  unfolding fifteen_mask by (rule bit_word_eqI) (auto simp: bit_simps)

lemma hex_roundtrip: "hex_Decode (hex_Encode bs) = Some bs"
  by (induction bs) (simp_all add: fromHexChar_hextable unat_hi unat_lo byte_split)

lemma length_hex_Encode: "length (hex_Encode bs) = 2 * length bs"
  by (induction bs) simp_all

lemma ObjectIDFromHex_Hex: "length oid = 12 \<Longrightarrow> ObjectIDFromHex (Hex oid) = Some oid"
  by (simp add: ObjectIDFromHex_def Hex_def length_hex_Encode hex_roundtrip)

lemma hex_Decode_length: "hex_Decode s = Some bs \<Longrightarrow> length s = 2 * length bs"
  by (induction s arbitrary: bs rule: hex_Decode.induct) (auto split: option.splits)

lemma ObjectIDFromHex_length: "ObjectIDFromHex s = Some oid \<Longrightarrow> length oid = 12"
  by (auto simp: ObjectIDFromHex_def split: if_splits dest: hex_Decode_length)

lemma Hex_sample_id: "Hex sample_id = sample_hex"
  by (simp add: Hex_def sample_id_def sample_hex_def hextable_def drop_bit_eq_div)

section \<open>What the store keeps of a time value\<close>

lemma millis_floor:
  "(n div 1000000000) * 1000 + (n mod 1000000000) div 1000000 = n div (1000000 :: int)"
proof -
  have "n = n mod 1000000000 + (n div 1000000000 * 1000) * 1000000" by simp
  then have "n div 1000000 = (n mod 1000000000 + (n div 1000000000 * 1000) * 1000000) div 1000000"
    by simp
  also have "\<dots> = n div 1000000000 * 1000 + (n mod 1000000000) div 1000000"
    by (rule div_mult_self1) simp
  finally show ?thesis by simp
qed

lemma NewDateTimeFromTime_floor: "NewDateTimeFromTime t = unix_nanos t div 1000000"
  by (simp add: NewDateTimeFromTime_def millis_floor)


lemma bson_Time_eq: "bson_Time t = \<lparr>unix_nanos = unix_nanos t div 1000000 * 1000000, zone_offset = 0\<rparr>"
  by (simp add: bson_Time_def DateTime_Time_def NewDateTimeFromTime_floor)

lemma bson_Time_exact: "whole_ms_utc t \<Longrightarrow> bson_Time t = t"
  by (cases t) (auto simp: bson_Time_eq whole_ms_utc_def)

lemma bson_entries_exact:
  "whole_ms_utc (DateDiagnosed d) \<Longrightarrow> bson_Diagnosis d = d"
  "whole_ms_utc (PrescribedDate p) \<and> whole_ms_utc (StartDate p) \<and> whole_ms_utc (EndDate p) \<Longrightarrow>
     bson_Prescription p = p"
  "whole_ms_utc (TestDate l) \<Longrightarrow> bson_LabResult l = l"
  "whole_ms_utc (MeasuredAt v) \<Longrightarrow> bson_VitalSigns v = v"
  "whole_ms_utc (UploadedAt a) \<Longrightarrow> bson_Attachment a = a"
  by (simp_all add: bson_Diagnosis_def bson_Prescription_def bson_LabResult_def
      bson_VitalSigns_def bson_Attachment_def bson_Time_exact)

lemma map_option_map_exact:
  "opt_all P v \<Longrightarrow> (\<And>x. P x \<Longrightarrow> f x = x) \<Longrightarrow> map_option (map f) v = v"
  by (cases v) (auto simp: opt_all_def list_all_iff intro: map_idI)

lemma bson_MedicalRecord_exact:
  assumes "client_times_exact p"
  shows "bson_MedicalRecord p = p\<lparr>CreatedAt := bson_Time (CreatedAt p), UpdatedAt := bson_Time (UpdatedAt p)\<rparr>"
proof -
  have "map_option (map bson_Diagnosis) (Diagnosis p) = Diagnosis p"
    using assms by (intro map_option_map_exact [where P = "\<lambda>d. whole_ms_utc (DateDiagnosed d)"])
      (simp_all add: client_times_exact_def bson_entries_exact)
  moreover have "map_option (map bson_Prescription) (Prescriptions p) = Prescriptions p"
    using assms
    by (intro map_option_map_exact [where P = "\<lambda>x. whole_ms_utc (PrescribedDate x) \<and>
          whole_ms_utc (StartDate x) \<and> whole_ms_utc (EndDate x)"])
      (simp_all add: client_times_exact_def bson_entries_exact)
  moreover have "map_option (map bson_LabResult) (LabResults p) = LabResults p"
    using assms by (intro map_option_map_exact [where P = "\<lambda>l. whole_ms_utc (TestDate l)"])
      (simp_all add: client_times_exact_def bson_entries_exact)
  moreover have "map_option (map bson_Attachment) (Attachments p) = Attachments p"
    using assms by (intro map_option_map_exact [where P = "\<lambda>a. whole_ms_utc (UploadedAt a)"])
      (simp_all add: client_times_exact_def bson_entries_exact)
  moreover have "map_option bson_VitalSigns (VitalSigns p) = VitalSigns p"
    using assms by (cases "VitalSigns p") (simp_all add: client_times_exact_def bson_entries_exact)
  ultimately show ?thesis by (simp add: bson_MedicalRecord_def)
qed

section \<open>Updating a stored record\<close>

lemma find_append_new:
  "oid \<notin> ID ` set db \<Longrightarrow> ID d = oid \<Longrightarrow> find (\<lambda>x. ID x = oid) (db @ [d]) = Some d"
  by (induction db) auto

lemma update_first_map:
  "store_wf db \<Longrightarrow> update_first (\<lambda>x. ID x = oid) f db = map (\<lambda>x. if ID x = oid then f x else x) db"
  unfolding store_wf_def
proof (induction db)
  case Nil
  then show ?case by simp
next
  case (Cons a db)
  have "ID a = oid \<Longrightarrow> map (\<lambda>x. if ID x = oid then f x else x) db = db"
    using Cons.prems by (intro map_idI) (auto simp: image_iff)
  with Cons show ?case by auto
qed

lemma find_update_first:
  "find (\<lambda>x. ID x = oid) db = Some d \<Longrightarrow> ID (f d) = oid \<Longrightarrow>
   find (\<lambda>x. ID x = oid) (update_first (\<lambda>x. ID x = oid) f db) = Some (f d)"
  by (induction db) (auto split: if_splits)

text \<open>
  What a successful update stores: the matched record keeps its identifier and takes
  every other field from the bound body as the store encodes it, with \<open>updated_at\<close> the
  encoded clock reading; no other record changes.
\<close>

lemma updateMedicalRecord_stores:
  assumes "store_wf db" and "d \<in> set db" and "ObjectIDFromHex idParam = Some (ID d)"
    and "ID u = NilObjectID \<or> ID u = ID d"
    and "\<not> fl CallUpdateOne" and "\<not> fl CallFindOne"
  shows
    "updateMedicalRecord fl now db idParam (Inr u) =
       (map (\<lambda>x. if ID x = ID d then apply_set (u\<lparr>UpdatedAt := now\<rparr>) d else x) db,
        JSON 200 (RecordBody (apply_set (u\<lparr>UpdatedAt := now\<rparr>) d))) \<and>
     apply_set (u\<lparr>UpdatedAt := now\<rparr>) d =
       (bson_MedicalRecord u)\<lparr>ID := ID d, UpdatedAt := bson_Time now\<rparr> \<and>
     CreatedAt (apply_set (u\<lparr>UpdatedAt := now\<rparr>) d) = bson_Time (CreatedAt u) \<and>
     UpdatedAt (apply_set (u\<lparr>UpdatedAt := now\<rparr>) d) = bson_Time now"
proof -
  let ?d' = "apply_set (u\<lparr>UpdatedAt := now\<rparr>) d"
  have f: "find (\<lambda>x. ID x = ID d) db = Some d"
    using assms(1,2) by (rule find_id_Some)
  have id': "ID ?d' = ID d" by (simp add: apply_set_def)
  have upd: "UpdateOne fl db (ID d) (u\<lparr>UpdatedAt := now\<rparr>) =
      Inr (update_first (\<lambda>x. ID x = ID d) (apply_set (u\<lparr>UpdatedAt := now\<rparr>)) db, 1)"
    using assms(4,5) f by (auto simp: UpdateOne_def)
  have fnd: "FindOne fl (update_first (\<lambda>x. ID x = ID d) (apply_set (u\<lparr>UpdatedAt := now\<rparr>)) db) (ID d) =
      Inr ?d'"
    using assms(6) f id' by (simp add: FindOne_def find_update_first)
  have "updateMedicalRecord fl now db idParam (Inr u) =
      (update_first (\<lambda>x. ID x = ID d) (apply_set (u\<lparr>UpdatedAt := now\<rparr>)) db, JSON 200 (RecordBody ?d'))"
    using assms(3) upd fnd by (simp add: updateMedicalRecord_def)
  moreover have "update_first (\<lambda>x. ID x = ID d) (apply_set (u\<lparr>UpdatedAt := now\<rparr>)) db =
      map (\<lambda>x. if ID x = ID d then ?d' else x) db"
    using update_first_map [OF assms(1), of "ID d" "apply_set (u\<lparr>UpdatedAt := now\<rparr>)"]
    by (simp add: apply_set_def cong: map_cong)
  moreover have "?d' = (bson_MedicalRecord u)\<lparr>ID := ID d, UpdatedAt := bson_Time now\<rparr>"
    by (simp add: apply_set_def bson_MedicalRecord_def)
  moreover have "CreatedAt ?d' = bson_Time (CreatedAt u)" "UpdatedAt ?d' = bson_Time now"
    by (simp_all add: apply_set_def bson_MedicalRecord_def)
  ultimately show ?thesis by simp
qed

lemma updateMedicalRecord_stores_example:
  "updateMedicalRecord no_faults later_time sample_db sample_hex (Inr resent_payload) =
     ([sample_stored\<lparr>Title := ''Follow-up'',
         UpdatedAt := \<lparr>unix_nanos = 1700000500000000000, zone_offset = 0\<rparr>\<rparr>],
      JSON 200 (RecordBody (sample_stored\<lparr>Title := ''Follow-up'',
         UpdatedAt := \<lparr>unix_nanos = 1700000500000000000, zone_offset = 0\<rparr>\<rparr>)))"
proof -
  have nf: "\<not> no_faults CallUpdateOne" "\<not> no_faults CallFindOne" by (simp_all add: no_faults_def)
  have mem: "sample_stored \<in> set sample_db" by (simp add: sample_db_def)
  have p: "ObjectIDFromHex sample_hex = Some (ID sample_stored)"
    using sample_hex_parses by (simp add: ID_sample_stored)
  have i: "ID resent_payload = NilObjectID \<or> ID resent_payload = ID sample_stored"
    by (simp add: resent_payload_def)
  show ?thesis
    using updateMedicalRecord_stores [OF sample_db_wf mem p i nf, of later_time]
    by (simp add: apply_set_def bson_MedicalRecord_def bson_Time_eq resent_payload_def
        later_time_def sample_db_def sample_stored_def checkup_payload_def blank_record_def
        sample_created_def)
qed

text \<open>
  The stored \<open>updated_at\<close> is the clock reading cut to whole milliseconds, so it lies
  after any instant that the clock reading exceeds by a millisecond or more.
\<close>

lemma updated_at_after:
  assumes "unix_nanos c + 1000000 \<le> unix_nanos now"
  shows "unix_nanos c < unix_nanos (bson_Time now)"
proof -
  have "unix_nanos now div 1000000 * 1000000 = unix_nanos now - unix_nanos now mod 1000000"
    by (simp add: minus_mod_eq_div_mult)
  moreover have "unix_nanos now mod 1000000 < 1000000" by simp
  ultimately show ?thesis using assms by (simp add: bson_Time_eq)
qed

text \<open>
  Claim C1 says that a successful update leaves \<open>created_at\<close> as it was at creation and
  changes no field but those the body provides and \<open>updated_at\<close>. The handler does not do
  so: the operand of \<open>$set\<close> is the whole bound struct, so a body with only a title, sent to
  a stored record, is answered 200 and the record's \<open>created_at\<close> is then the zero time
  instead of its value at creation, and its patient identifier, which the body did not
  provide, is empty.
\<close>

theorem update_resets_unsent_fields:
  "status (snd (updateMedicalRecord no_faults later_time sample_db sample_hex
      (Inr title_only_payload))) = 200 \<and>
   map_option CreatedAt (response_record (snd (updateMedicalRecord no_faults later_time sample_db
      sample_hex (Inr title_only_payload)))) = Some zero_Time \<and>
   CreatedAt sample_stored = sample_created \<and> zero_Time \<noteq> sample_created \<and>
   map PatientID (fst (updateMedicalRecord no_faults later_time sample_db sample_hex
      (Inr title_only_payload))) = [[]] \<and>
   PatientID sample_stored = ''p1''"
  using sample_hex_parses
  by (simp add: eval_crud eval_fixtures title_only_payload_def later_time_def response_record_def)

section \<open>Creating a record and fetching it\<close>

text \<open>
  Claim C8, amended. For every create body that passes validation, with a fresh
  identifier of twelve bytes and the driver calls answering, the create is answered 201
  and fetching the returned identifier is answered 200 with the stored record: the body
  field for field, with the assigned identifier and timestamps, every time value being
  kept at the store's precision (whole milliseconds, UTC). When the time values of the
  body's nested entries already are whole milliseconds in UTC, the fetched record equals
  the body on every field but the identifier and the two timestamps.
\<close>

theorem create_then_get:
  assumes "validate_Struct p = []"
    and "length new_id = 12" and "new_id \<noteq> NilObjectID" and "new_id \<notin> ID ` set db"
    and "\<not> fl CallInsertOne" and "\<not> fl' CallFindOne"
  shows
    "createMedicalRecord fl new_id drv_id now1 now2 db (Inr p) =
       (db @ [bson_MedicalRecord (p\<lparr>ID := new_id, CreatedAt := now1, UpdatedAt := now2\<rparr>)],
        JSON 201 (RecordBody (p\<lparr>ID := new_id, CreatedAt := now1, UpdatedAt := now2\<rparr>))) \<and>
     getMedicalRecord fl'
         (db @ [bson_MedicalRecord (p\<lparr>ID := new_id, CreatedAt := now1, UpdatedAt := now2\<rparr>)])
         (Hex new_id) =
       (db @ [bson_MedicalRecord (p\<lparr>ID := new_id, CreatedAt := now1, UpdatedAt := now2\<rparr>)],
        JSON 200 (RecordBody
          (bson_MedicalRecord (p\<lparr>ID := new_id, CreatedAt := now1, UpdatedAt := now2\<rparr>)))) \<and>
     bson_MedicalRecord (p\<lparr>ID := new_id, CreatedAt := now1, UpdatedAt := now2\<rparr>) =
       (bson_MedicalRecord p)\<lparr>ID := new_id, CreatedAt := bson_Time now1, UpdatedAt := bson_Time now2\<rparr> \<and>
     (client_times_exact p \<longrightarrow>
        bson_MedicalRecord (p\<lparr>ID := new_id, CreatedAt := now1, UpdatedAt := now2\<rparr>) =
          p\<lparr>ID := new_id, CreatedAt := bson_Time now1, UpdatedAt := bson_Time now2\<rparr>)"
proof -
  let ?r = "p\<lparr>ID := new_id, CreatedAt := now1, UpdatedAt := now2\<rparr>"
  let ?s = "bson_MedicalRecord ?r"
  have ids: "ID ?s = new_id" by (simp add: bson_MedicalRecord_def)
  have ins: "InsertOne fl drv_id db ?r = Inr (db @ [?s])"
    using assms(3,4,5) ids by (simp add: InsertOne_def Let_def)
  have c: "createMedicalRecord fl new_id drv_id now1 now2 db (Inr p) = (db @ [?s], JSON 201 (RecordBody ?r))"
    using assms(1) ins by (simp add: createMedicalRecord_def Let_def)
  have "find (\<lambda>x. ID x = new_id) (db @ [?s]) = Some ?s"
    using assms(4) ids by (rule find_append_new)
  then have g: "getMedicalRecord fl' (db @ [?s]) (Hex new_id) = (db @ [?s], JSON 200 (RecordBody ?s))"
    using assms(2,6) by (simp add: getMedicalRecord_def FindOne_def ObjectIDFromHex_Hex)
  have e: "?s = (bson_MedicalRecord p)\<lparr>ID := new_id, CreatedAt := bson_Time now1, UpdatedAt := bson_Time now2\<rparr>"
    by (simp add: bson_MedicalRecord_def)
  have "client_times_exact p \<Longrightarrow>
      ?s = p\<lparr>ID := new_id, CreatedAt := bson_Time now1, UpdatedAt := bson_Time now2\<rparr>"
    unfolding e by (simp add: bson_MedicalRecord_exact)
  with c g e show ?thesis by blast
qed

theorem create_then_get_witness:
  "createMedicalRecord no_faults sample_id sample_id sample_created later_time [] (Inr checkup_payload) =
     ([checkup_payload\<lparr>ID := sample_id, CreatedAt := sample_created,
         UpdatedAt := \<lparr>unix_nanos = 1700000500000000000, zone_offset = 0\<rparr>\<rparr>],
      JSON 201 (RecordBody (checkup_payload\<lparr>ID := sample_id, CreatedAt := sample_created,
         UpdatedAt := later_time\<rparr>))) \<and>
   getMedicalRecord no_faults
       [checkup_payload\<lparr>ID := sample_id, CreatedAt := sample_created,
         UpdatedAt := \<lparr>unix_nanos = 1700000500000000000, zone_offset = 0\<rparr>\<rparr>] sample_hex =
     ([checkup_payload\<lparr>ID := sample_id, CreatedAt := sample_created,
         UpdatedAt := \<lparr>unix_nanos = 1700000500000000000, zone_offset = 0\<rparr>\<rparr>],
      JSON 200 (RecordBody (checkup_payload\<lparr>ID := sample_id, CreatedAt := sample_created,
         UpdatedAt := \<lparr>unix_nanos = 1700000500000000000, zone_offset = 0\<rparr>\<rparr>)))"
proof -
  have nf: "\<not> no_faults CallInsertOne" "\<not> no_faults CallFindOne" by (simp_all add: no_faults_def)
  have v: "validate_Struct checkup_payload = []"
    by (simp add: validate_Struct_def checkup_payload_def blank_record_def hasValue_def
        isOneOf_def record_type_values_def)
  have l: "length sample_id = 12" "sample_id \<noteq> NilObjectID" "sample_id \<notin> ID ` set []"
    by (simp_all add: sample_id_def NilObjectID_def eval_nat_numeral)
  have x: "client_times_exact checkup_payload"
    by (simp add: client_times_exact_def opt_all_def checkup_payload_def blank_record_def)
  note t = create_then_get [where p = checkup_payload and new_id = sample_id and db = "[]"
      and fl = no_faults and fl' = no_faults and drv_id = sample_id
      and ?now1.0 = sample_created and ?now2.0 = later_time, OF v l nf]
  have e: "bson_MedicalRecord
      (checkup_payload\<lparr>ID := sample_id, CreatedAt := sample_created, UpdatedAt := later_time\<rparr>) =
      checkup_payload\<lparr>ID := sample_id, CreatedAt := bson_Time sample_created,
        UpdatedAt := bson_Time later_time\<rparr>"
    using t x by blast
  have b: "bson_Time sample_created = sample_created"
    "bson_Time later_time = \<lparr>unix_nanos = 1700000500000000000, zone_offset = 0\<rparr>"
    by (simp_all add: bson_Time_eq sample_created_def later_time_def)
  from conjI [OF t [THEN conjunct1] t [THEN conjunct2, THEN conjunct1]] show ?thesis
    unfolding e b Hex_sample_id append_Nil .
qed

text \<open>
  The claim as stated fails: a valid body whose diagnosis date has a fraction of a
  millisecond is fetched back with the date truncated, so the fetched \<open>diagnosis\<close> field
  differs from the one sent.
\<close>

theorem create_then_get_counterexample:
  "validate_Struct precise_payload = [] \<and>
   map_option Diagnosis (response_record (snd (getMedicalRecord no_faults
      (fst (createMedicalRecord no_faults sample_id sample_id sample_created sample_created []
         (Inr precise_payload))) sample_hex))) = Some (Some [fever]) \<and>
   Diagnosis precise_payload = Some [precise_fever] \<and> precise_fever \<noteq> fever"
  using sample_hex_parses
  by (simp add: eval_crud eval_fixtures precise_payload_def precise_fever_def fever_def
      response_record_def)

section \<open>The collection keeps its identifiers unique\<close>

text \<open>
  The uniqueness of \<open>_id\<close> that the lookups above rely on holds of the empty collection
  and is kept by every handler; an update never changes an identifier, and the reading
  handlers leave the collection as it is.
\<close>

lemma map_ID_update_first:
  "map ID (update_first (\<lambda>x. ID x = oid) (apply_set u) db) = map ID db"
  by (induction db) (simp_all add: apply_set_def)

lemma set_delete_first: "set (delete_first P db) \<subseteq> set db"
  by (induction db) auto

lemma distinct_delete_first: "distinct (map ID db) \<Longrightarrow> distinct (map ID (delete_first P db))"
proof (induction db)
  case Nil
  then show ?case by simp
next
  case (Cons a db)
  then show ?case using set_delete_first [of P db] by auto
qed

lemma store_wf_empty: "store_wf []"
  by (simp add: store_wf_def)

lemma createMedicalRecord_wf:
  "store_wf db \<Longrightarrow> store_wf (fst (createMedicalRecord fl new_id drv_id now1 now2 db payload))"
  by (auto simp: createMedicalRecord_def InsertOne_def store_wf_def Let_def
      split: sum.splits list.splits if_splits)

lemma updateMedicalRecord_wf:
  "store_wf db \<Longrightarrow> store_wf (fst (updateMedicalRecord fl now db idParam payload))"
  by (auto simp: updateMedicalRecord_def UpdateOne_def store_wf_def Let_def map_ID_update_first
      split: sum.splits option.splits if_splits)

lemma deleteMedicalRecord_wf:
  "store_wf db \<Longrightarrow> store_wf (fst (deleteMedicalRecord fl db idParam))"
  by (auto simp: deleteMedicalRecord_def DeleteOne_def store_wf_def distinct_delete_first
      split: sum.splits option.splits if_splits)

lemma read_handlers_keep_collection:
  "fst (getMedicalRecords fl db req) = db"
  "fst (getMedicalRecord fl db idParam) = db"
  "fst (getPatientSummary fl db patientID) = db"
  by (auto simp: getMedicalRecords_def getMedicalRecord_def getPatientSummary_def Let_def
      split: sum.splits option.splits list.splits if_splits)

lemma updateMedicalRecord_ids:
  "map ID (fst (updateMedicalRecord fl now db idParam payload)) = map ID db"
  by (auto simp: updateMedicalRecord_def UpdateOne_def Let_def map_ID_update_first
      split: sum.splits option.splits if_splits)

section \<open>What validation on create covers\<close>

text \<open>
  A create body passes exactly when the patient identifier, the doctor identifier and
  the title are not empty and the record type is one of the five values; a body that
  does not pass is answered 400 with the list of failed fields and tags, and the
  collection is unchanged. The nested entries play no part in it.
\<close>

lemma validate_Struct_Nil_iff:
  "validate_Struct p = [] \<longleftrightarrow>
     PatientID p \<noteq> [] \<and> DoctorID p \<noteq> [] \<and> RecordType p \<in> set record_type_values \<and> Title p \<noteq> []"
  by (auto simp: validate_Struct_def hasValue_def isOneOf_def record_type_values_def)

lemma validate_Struct_names:
  "(''PatientID'', ''required'') \<in> set (validate_Struct p) \<longleftrightarrow> PatientID p = []"
  "(''DoctorID'', ''required'') \<in> set (validate_Struct p) \<longleftrightarrow> DoctorID p = []"
  "(''RecordType'', ''required'') \<in> set (validate_Struct p) \<longleftrightarrow> RecordType p = []"
  "(''RecordType'', ''oneof'') \<in> set (validate_Struct p) \<longleftrightarrow>
     RecordType p \<noteq> [] \<and> RecordType p \<notin> set record_type_values"
  "(''Title'', ''required'') \<in> set (validate_Struct p) \<longleftrightarrow> Title p = []"
  by (auto simp: validate_Struct_def hasValue_def isOneOf_def)

lemma createMedicalRecord_invalid:
  "validate_Struct p \<noteq> [] \<Longrightarrow>
   createMedicalRecord fl new_id drv_id now1 now2 db (Inr p) =
     (db, JSON 400 (ValidationErrorBody (validate_Struct p)))"
  by (simp add: createMedicalRecord_def split: list.splits)

lemma validate_Struct_ignores_entries:
  "validate_Struct (p\<lparr>Diagnosis := ds, Prescriptions := ps, LabResults := ls, Attachments := as\<rparr>) =
   validate_Struct p"
  by (simp add: validate_Struct_def)

end
